theory Spec2Isabelle
  imports Complex_Main "HOL-Library.Word"
begin

section \<open>Host metrics collector (package metric) and its logger (package bslog)\<close>

subsection \<open>Floating-point values\<close>

text \<open>
  The metric maps hold Go \<^verbatim>\<open>float64\<close> values (the package's \<^verbatim>\<open>float\<close> is its own
  name for them). A value is a finite number, one of the two infinities, or not-a-number.
  Finite values are carried as reals: rounding to 53 bits, overflow to an infinity and the
  sign of zero are not part of this model. What the model keeps is what IEEE 754 fixes for
  the special cases: a finite nonzero number divided by zero is an infinity of the
  dividend's sign, zero divided by zero is not-a-number, and not-a-number propagates.
\<close>

datatype float64 = Fin real | PInf | NInf | NaN

fun fneg :: "float64 \<Rightarrow> float64" where
  "fneg (Fin a) = Fin (- a)"
| "fneg PInf = NInf"
| "fneg NInf = PInf"
| "fneg NaN = NaN"

fun fadd :: "float64 \<Rightarrow> float64 \<Rightarrow> float64" where
  "fadd (Fin a) (Fin b) = Fin (a + b)"
| "fadd NaN y = NaN"
| "fadd x NaN = NaN"
| "fadd PInf NInf = NaN"
| "fadd NInf PInf = NaN"
| "fadd PInf y = PInf"
| "fadd NInf y = NInf"
| "fadd x PInf = PInf"
| "fadd x NInf = NInf"

definition fsub :: "float64 \<Rightarrow> float64 \<Rightarrow> float64" where
  "fsub x y = fadd x (fneg y)"

fun fdiv :: "float64 \<Rightarrow> float64 \<Rightarrow> float64" where
  "fdiv (Fin a) (Fin b) =
     (if b = 0 then (if a = 0 then NaN else if 0 < a then PInf else NInf)
      else Fin (a / b))"
| "fdiv NaN y = NaN"
| "fdiv x NaN = NaN"
| "fdiv (Fin a) PInf = Fin 0"
| "fdiv (Fin a) NInf = Fin 0"
| "fdiv PInf (Fin b) = (if 0 \<le> b then PInf else NInf)"
| "fdiv NInf (Fin b) = (if 0 \<le> b then NInf else PInf)"
| "fdiv x y = NaN"

fun is_finite :: "float64 \<Rightarrow> bool" where
  "is_finite (Fin a) = True"
| "is_finite x = False"

text \<open>The conversion \<^verbatim>\<open>float(x)\<close> of an unsigned 64-bit counter (unrounded).\<close>

definition float_of_uint64 :: "64 word \<Rightarrow> float64" where
  "float_of_uint64 w = Fin (real (unat w))"

subsection \<open>Errors\<close>

text \<open>
  The dynamic types a Go \<^verbatim>\<open>error\<close> has in this package: the value of \<^verbatim>\<open>errors.New\<close>,
  the package's own \<^verbatim>\<open>errInterfaceNotFound\<close>, and the error of a platform statistics
  read, which the package never builds itself and only passes on (it is identified here by
  its message). A failure of a call is either a returned error or a run-time panic.
\<close>

datatype error = errorString string | errInterfaceNotFound string | platformError string

fun Error :: "error \<Rightarrow> string" where
  "Error (errorString s) = s"
| "Error (errInterfaceNotFound name) = ''interface '' @ name @ '' not found''"
| "Error (platformError s) = s"

datatype failure = Err error | Panic

type_synonym 'a result = "failure + 'a"

subsection \<open>Logger (bslog)\<close>

text \<open>
  The \<^verbatim>\<open>%s\<close> verb of \<^verbatim>\<open>fmt.Sprintf\<close>, the only verb the program uses. The log is the
  list of messages handed to \<^verbatim>\<open>Logger.Printf\<close>, oldest first, without the time stamp
  the logger puts in front.
\<close>

fun Sprintf :: "string \<Rightarrow> string list \<Rightarrow> string" where
  "Sprintf [] params = []"
| "Sprintf [c] params = [c]"
| "Sprintf (c # d # msg) params =
     (if c = CHR ''%'' \<and> d = CHR ''s''
      then (case params of
              [] \<Rightarrow> ''%!s(MISSING)'' @ Sprintf msg []
            | p # ps \<Rightarrow> p @ Sprintf msg ps)
      else c # Sprintf (d # msg) params)"

definition printf :: "string \<Rightarrow> string \<Rightarrow> string list \<Rightarrow> string list \<Rightarrow> string list" where
  "printf level msg params lg = lg @ [Sprintf (Sprintf ''[%s] %s'' [level, msg]) params]"

definition Warnf :: "string \<Rightarrow> string list \<Rightarrow> string list \<Rightarrow> string list" where
  "Warnf msg params lg = printf ''WARNING'' msg params lg"

definition Errorf :: "string \<Rightarrow> string list \<Rightarrow> string list \<Rightarrow> string list" where
  "Errorf msg params lg = printf ''ERROR'' msg params lg"

definition Debugf :: "bool \<Rightarrow> string \<Rightarrow> string list \<Rightarrow> string list \<Rightarrow> string list" where
  "Debugf Debug msg params lg = (if Debug then printf ''DEBUG'' msg params lg else lg)"

subsection \<open>Platform statistics\<close>

text \<open>
  The statistics providers are outside the program. A platform value gives, for one
  collection cycle, what each read returns: \<open>Inl\<close> with the provider's error or \<open>Inr\<close> with
  the statistics. Only the fields the collector reads are kept. \<open>Total\<close> stands for the
  provider's method \<^verbatim>\<open>Total()\<close> of a CPU sample, the sum of all its categories (also
  of those the collector does not report); it is taken as given with the sample.
\<close>

record LoadAvgStat =
  Load1 :: float64
  Load5 :: float64
  Load15 :: float64

record VirtualMemoryStat =
  mem_Total :: "64 word"
  mem_Used :: "64 word"
  mem_Free :: "64 word"

record SwapMemoryStat =
  swap_Total :: "64 word"
  swap_Used :: "64 word"
  swap_Free :: "64 word"

record DiskUsageStat =
  disk_Total :: "64 word"
  disk_Used :: "64 word"
  disk_Free :: "64 word"

record CPUTimesStat =
  User :: float64
  System :: float64
  Idle :: float64
  Stolen :: float64
  Iowait :: float64
  Total :: float64

record NetIOCountersStat =
  Name :: string
  BytesRecv :: "64 word"
  BytesSent :: "64 word"

record HostInfoStat =
  Hostname :: string

record platform =
  LoadAvg :: "string + LoadAvgStat"
  VirtualMemory :: "string + VirtualMemoryStat"
  SwapMemory :: "string + SwapMemoryStat"
  DiskUsage :: "string \<Rightarrow> string + DiskUsageStat"
  Uptime :: "string + 64 word"
  CPUTimes :: "bool \<Rightarrow> string + CPUTimesStat list"
  NetIOCounters :: "bool \<Rightarrow> string + NetIOCountersStat list"
  HostInfo :: "string + HostInfoStat"

subsection \<open>The collector\<close>

record HostClient =
  ifaceName :: string
  lastCPUStats :: "CPUTimesStat option"

type_synonym metric = "string \<rightharpoonup> float64"

type_synonym collector = "HostClient \<Rightarrow> metric result \<times> HostClient"

text \<open>
  Modelled from the spec: \<^verbatim>\<open>config.StringEnvOrDefault\<close> is not among the sources. The
  spec gives the interface name as an optional setting with a default; the environment is
  read as \<^verbatim>\<open>os.Getenv\<close> reads it, an unset variable being the empty string.
\<close>

definition StringEnvOrDefault :: "(string \<Rightarrow> string) \<Rightarrow> string \<Rightarrow> string \<Rightarrow> string" where
  "StringEnvOrDefault Getenv defaultValue env =
     (if Getenv env = [] then defaultValue else Getenv env)"

definition NewHostClient :: "(string \<Rightarrow> string) \<Rightarrow> error + HostClient" where
  "NewHostClient Getenv =
     (let proc = Getenv ''HOST_PROC'' in
      if proc = [] then Inl (errorString ''HOST_PROC must be set to be able to send host metrics'')
      else Inr \<lparr>ifaceName = StringEnvOrDefault Getenv ''eth0'' ''METRICS_NETWORK_INTERFACE'',
                lastCPUStats = None\<rparr>)"

definition getHostLoad :: "platform \<Rightarrow> collector" where
  "getHostLoad p h =
     (case LoadAvg p of
        Inl err \<Rightarrow> (Inl (Err (platformError err)), h)
      | Inr loadStat \<Rightarrow>
          (Inr [''load1'' \<mapsto> Load1 loadStat,
                ''load5'' \<mapsto> Load5 loadStat,
                ''load15'' \<mapsto> Load15 loadStat], h))"

definition getHostMem :: "platform \<Rightarrow> collector" where
  "getHostMem p h =
     (case VirtualMemory p of
        Inl err \<Rightarrow> (Inl (Err (platformError err)), h)
      | Inr memStat \<Rightarrow>
          (Inr [''mem_total'' \<mapsto> float_of_uint64 (mem_Total memStat),
                ''mem_used'' \<mapsto> float_of_uint64 (mem_Used memStat),
                ''mem_free'' \<mapsto> float_of_uint64 (mem_Free memStat)], h))"

definition getHostSwap :: "platform \<Rightarrow> collector" where
  "getHostSwap p h =
     (case SwapMemory p of
        Inl err \<Rightarrow> (Inl (Err (platformError err)), h)
      | Inr swap \<Rightarrow>
          (Inr [''swap_total'' \<mapsto> float_of_uint64 (swap_Total swap),
                ''swap_used'' \<mapsto> float_of_uint64 (swap_Used swap),
                ''swap_free'' \<mapsto> float_of_uint64 (swap_Free swap)], h))"

definition getHostFileSystemUsage :: "platform \<Rightarrow> collector" where
  "getHostFileSystemUsage p h =
     (case DiskUsage p ''/'' of
        Inl err \<Rightarrow> (Inl (Err (platformError err)), h)
      | Inr diskStat \<Rightarrow>
          (Inr [''disk_total'' \<mapsto> float_of_uint64 (disk_Total diskStat),
                ''disk_used'' \<mapsto> float_of_uint64 (disk_Used diskStat),
                ''disk_free'' \<mapsto> float_of_uint64 (disk_Free diskStat)], h))"

definition getHostUptime :: "platform \<Rightarrow> collector" where
  "getHostUptime p h =
     (case Uptime p of
        Inl err \<Rightarrow> (Inl (Err (platformError err)), h)
      | Inr uptime \<Rightarrow> (Inr [''uptime'' \<mapsto> float_of_uint64 uptime], h))"

text \<open>
  The five fractions start at zero and are computed only when a previous sample is held;
  the divisions are not guarded.
\<close>

definition calculateCpuPercent :: "HostClient \<Rightarrow> CPUTimesStat \<Rightarrow> metric" where
  "calculateCpuPercent h currentCpuStats =
     (let (user, sys, idle, stolen, wait) =
        (case lastCPUStats h of
           None \<Rightarrow> (Fin 0, Fin 0, Fin 0, Fin 0, Fin 0)
         | Some prev \<Rightarrow>
             (let deltaTotal = fsub (Total currentCpuStats) (Total prev) in
              (fdiv (fsub (User currentCpuStats) (User prev)) deltaTotal,
               fdiv (fsub (System currentCpuStats) (System prev)) deltaTotal,
               fdiv (fsub (Idle currentCpuStats) (Idle prev)) deltaTotal,
               fdiv (fsub (Stolen currentCpuStats) (Stolen prev)) deltaTotal,
               fdiv (fsub (Iowait currentCpuStats) (Iowait prev)) deltaTotal)))
      in [''cpu_user'' \<mapsto> user,
          ''cpu_sys'' \<mapsto> sys,
          ''cpu_idle'' \<mapsto> idle,
          ''cpu_stolen'' \<mapsto> stolen,
          ''cpu_wait'' \<mapsto> wait,
          ''cpu_busy'' \<mapsto> fadd user sys])"

text \<open>Reading element 0 of an empty slice panics.\<close>

definition getHostCpuTimes :: "platform \<Rightarrow> collector" where
  "getHostCpuTimes p h =
     (case CPUTimes p False of
        Inl err \<Rightarrow> (Inl (Err (platformError err)), h)
      | Inr cpuStats \<Rightarrow>
          (case cpuStats of
             [] \<Rightarrow> (Inl Panic, h)
           | c # rest \<Rightarrow> (Inr (calculateCpuPercent h c), h\<lparr>lastCPUStats := Some c\<rparr>)))"

fun scanInterfaces :: "string \<Rightarrow> NetIOCountersStat list \<Rightarrow> metric result" where
  "scanInterfaces name [] = Inl (Err (errInterfaceNotFound name))"
| "scanInterfaces name (netInterface # netStat) =
     (if Name netInterface = name
      then Inr [''netrx'' \<mapsto> float_of_uint64 (BytesRecv netInterface),
                ''nettx'' \<mapsto> float_of_uint64 (BytesSent netInterface)]
      else scanInterfaces name netStat)"

definition getHostNetworkUsage :: "platform \<Rightarrow> collector" where
  "getHostNetworkUsage p h =
     (case NetIOCounters p True of
        Inl err \<Rightarrow> (Inl (Err (platformError err)), h)
      | Inr netStat \<Rightarrow> (scanInterfaces (ifaceName h) netStat, h))"

definition GetHostname :: "platform \<Rightarrow> HostClient \<Rightarrow> error + string" where
  "GetHostname p h =
     (case HostInfo p of
        Inl err \<Rightarrow> Inl (platformError err)
      | Inr hostInfo \<Rightarrow> Inr (Hostname hostInfo))"

definition collectors :: "platform \<Rightarrow> collector list" where
  "collectors p =
     [getHostLoad p, getHostMem p, getHostSwap p, getHostFileSystemUsage p,
      getHostUptime p, getHostCpuTimes p, getHostNetworkUsage p]"

text \<open>
  The loop of \<^verbatim>\<open>GetHostMetrics\<close> over the collectors: the collector's state, the
  metrics gathered so far and the log are threaded through.
\<close>

fun collect ::
  "collector list \<Rightarrow> HostClient \<Rightarrow> metric list \<Rightarrow> string list
     \<Rightarrow> metric list result \<times> HostClient \<times> string list" where
  "collect [] h metrics lg = (Inr metrics, h, lg)"
| "collect (collector # rest) h metrics lg =
     (case collector h of
        (Inl Panic, h') \<Rightarrow> (Inl Panic, h', lg)
      | (Inl (Err err), h') \<Rightarrow>
          (case err of
             errInterfaceNotFound name \<Rightarrow>
               collect rest h' metrics (Warnf ''Skipping network metrics: %s'' [Error err] lg)
           | _ \<Rightarrow> (Inl (Err err), h', lg))
      | (Inr metric, h') \<Rightarrow> collect rest h' (metrics @ [metric]) lg)"

definition GetHostMetrics ::
  "platform \<Rightarrow> HostClient \<Rightarrow> string list
     \<Rightarrow> metric list result \<times> HostClient \<times> string list" where
  "GetHostMetrics p h lg = collect (collectors p) h [] lg"

subsection \<open>Example values\<close>

text \<open>
  Two CPU samples 300 units of total time apart, an environment that sets
  \<^verbatim>\<open>HOST_PROC\<close> only, and a platform on which every read succeeds and two interfaces are
  called \<^verbatim>\<open>eth0\<close>.
\<close>

definition sample_prev :: CPUTimesStat where
  "sample_prev = \<lparr>User = Fin 100, System = Fin 50, Idle = Fin 800, Stolen = Fin 0,
                    Iowait = Fin 50, Total = Fin 1000\<rparr>"

definition sample_cur :: CPUTimesStat where
  "sample_cur = \<lparr>User = Fin 150, System = Fin 70, Idle = Fin 1020, Stolen = Fin 0,
                   Iowait = Fin 60, Total = Fin 1300\<rparr>"

definition host_env :: "string \<Rightarrow> string" where
  "host_env v = (if v = ''HOST_PROC'' then ''/prochost'' else [])"

definition host_platform :: platform where
  "host_platform =
     \<lparr>LoadAvg = Inr \<lparr>Load1 = Fin 1, Load5 = Fin 2, Load15 = Fin 3\<rparr>,
      VirtualMemory = Inr \<lparr>mem_Total = 8192, mem_Used = 6144, mem_Free = 2048\<rparr>,
      SwapMemory = Inr \<lparr>swap_Total = 1024, swap_Used = 0, swap_Free = 1024\<rparr>,
      DiskUsage = (\<lambda>path. if path = ''/''
                          then Inr \<lparr>disk_Total = 4096, disk_Used = 1024, disk_Free = 3072\<rparr>
                          else Inl ''no such file or directory''),
      Uptime = Inr 3600,
      CPUTimes = (\<lambda>percpu. Inr [sample_cur]),
      NetIOCounters = (\<lambda>pernic. Inr [\<lparr>Name = ''lo'', BytesRecv = 1, BytesSent = 2\<rparr>,
                                       \<lparr>Name = ''eth0'', BytesRecv = 30, BytesSent = 40\<rparr>,
                                       \<lparr>Name = ''eth0'', BytesRecv = 500, BytesSent = 600\<rparr>]),
      HostInfo = Inr \<lparr>Hostname = ''host1''\<rparr>\<rparr>"

definition host_client :: HostClient where
  "host_client = \<lparr>ifaceName = ''eth0'', lastCPUStats = None\<rparr>"

definition mem_fail_platform :: platform where
  "mem_fail_platform =
     host_platform\<lparr>VirtualMemory := Inl ''open /prochost/meminfo: permission denied''\<rparr>"

text \<open>The mappings a first cycle on that platform produces.\<close>

definition host_load :: metric where
  "host_load = [''load1'' \<mapsto> Fin 1, ''load5'' \<mapsto> Fin 2, ''load15'' \<mapsto> Fin 3]"

definition host_mem :: metric where
  "host_mem = [''mem_total'' \<mapsto> Fin 8192, ''mem_used'' \<mapsto> Fin 6144,
               ''mem_free'' \<mapsto> Fin 2048]"

definition host_swap :: metric where
  "host_swap = [''swap_total'' \<mapsto> Fin 1024, ''swap_used'' \<mapsto> Fin 0,
                ''swap_free'' \<mapsto> Fin 1024]"

definition host_disk :: metric where
  "host_disk = [''disk_total'' \<mapsto> Fin 4096, ''disk_used'' \<mapsto> Fin 1024,
                ''disk_free'' \<mapsto> Fin 3072]"

definition host_uptime :: metric where
  "host_uptime = [''uptime'' \<mapsto> Fin 3600]"

definition host_cpu :: metric where
  "host_cpu = [''cpu_user'' \<mapsto> Fin 0, ''cpu_sys'' \<mapsto> Fin 0, ''cpu_idle'' \<mapsto> Fin 0,
               ''cpu_stolen'' \<mapsto> Fin 0, ''cpu_wait'' \<mapsto> Fin 0, ''cpu_busy'' \<mapsto> Fin 0]"

definition host_net :: metric where
  "host_net = [''netrx'' \<mapsto> Fin 30, ''nettx'' \<mapsto> Fin 40]"

section \<open>Properties\<close>

subsection \<open>Floating-point arithmetic of the model\<close>

lemma fsub_Fin: "fsub (Fin a) (Fin b) = Fin (a - b)"
  by (simp add: fsub_def)

lemma fdiv_fsub_Fin:
  "c \<noteq> d \<Longrightarrow> fdiv (fsub (Fin a) (Fin b)) (fsub (Fin c) (Fin d)) = Fin ((a - b) / (c - d))"
  by (simp add: fsub_def)

lemma fdiv_zero_not_finite: "\<not> is_finite (fdiv x (Fin 0))"
  by (cases x) simp_all

lemma fadd_not_finite: "\<not> is_finite x \<Longrightarrow> \<not> is_finite (fadd x y)"
  by (cases x; cases y) simp_all

subsection \<open>CPU utilisation\<close>

lemma calculateCpuPercent_None:
  "lastCPUStats h = None \<Longrightarrow>
   calculateCpuPercent h cur =
     [''cpu_user'' \<mapsto> Fin 0, ''cpu_sys'' \<mapsto> Fin 0, ''cpu_idle'' \<mapsto> Fin 0,
      ''cpu_stolen'' \<mapsto> Fin 0, ''cpu_wait'' \<mapsto> Fin 0, ''cpu_busy'' \<mapsto> Fin 0]"
  by (simp add: calculateCpuPercent_def)

lemma calculateCpuPercent_Some:
  "lastCPUStats h = Some prev \<Longrightarrow>
   calculateCpuPercent h cur =
     [''cpu_user'' \<mapsto> fdiv (fsub (User cur) (User prev)) (fsub (Total cur) (Total prev)),
      ''cpu_sys'' \<mapsto> fdiv (fsub (System cur) (System prev)) (fsub (Total cur) (Total prev)),
      ''cpu_idle'' \<mapsto> fdiv (fsub (Idle cur) (Idle prev)) (fsub (Total cur) (Total prev)),
      ''cpu_stolen'' \<mapsto> fdiv (fsub (Stolen cur) (Stolen prev)) (fsub (Total cur) (Total prev)),
      ''cpu_wait'' \<mapsto> fdiv (fsub (Iowait cur) (Iowait prev)) (fsub (Total cur) (Total prev)),
      ''cpu_busy'' \<mapsto>
         fadd (fdiv (fsub (User cur) (User prev)) (fsub (Total cur) (Total prev)))
              (fdiv (fsub (System cur) (System prev)) (fsub (Total cur) (Total prev)))]"
  by (simp add: calculateCpuPercent_def Let_def)

text \<open>
  C1, as stated, fails: with a previous sample held and the same sample read again (the
  two totals equal, deltaTotal = 0), every one of the six outputs is not-a-number, not 0.
\<close>

theorem calculateCpuPercent_zero_delta_counterexample:
  "lastCPUStats \<lparr>ifaceName = ''eth0'', lastCPUStats = Some sample_prev\<rparr> = Some sample_prev
   \<and> fsub (Total sample_prev) (Total sample_prev) = Fin 0
   \<and> calculateCpuPercent \<lparr>ifaceName = ''eth0'', lastCPUStats = Some sample_prev\<rparr> sample_prev
       = [''cpu_user'' \<mapsto> NaN, ''cpu_sys'' \<mapsto> NaN, ''cpu_idle'' \<mapsto> NaN,
          ''cpu_stolen'' \<mapsto> NaN, ''cpu_wait'' \<mapsto> NaN, ''cpu_busy'' \<mapsto> NaN]
   \<and> calculateCpuPercent \<lparr>ifaceName = ''eth0'', lastCPUStats = Some sample_prev\<rparr> sample_prev
         ''cpu_user'' \<noteq> Some (Fin 0)"
  by (simp add: calculateCpuPercent_def sample_prev_def fsub_def)

text \<open>
  C1, amended: with a previous sample held and deltaTotal = 0, each of the five base
  outputs is the quotient of its category's delta by zero and \<^verbatim>\<open>cpu_busy\<close> is the sum of
  \<^verbatim>\<open>cpu_user\<close> and \<^verbatim>\<open>cpu_sys\<close>; the division is not guarded, and none of the six
  outputs is a finite number (each is not-a-number or an infinity).
\<close>

theorem calculateCpuPercent_zero_delta:
  assumes "lastCPUStats h = Some prev"
    and "fsub (Total cur) (Total prev) = Fin 0"
  shows "calculateCpuPercent h cur =
           [''cpu_user'' \<mapsto> fdiv (fsub (User cur) (User prev)) (Fin 0),
            ''cpu_sys'' \<mapsto> fdiv (fsub (System cur) (System prev)) (Fin 0),
            ''cpu_idle'' \<mapsto> fdiv (fsub (Idle cur) (Idle prev)) (Fin 0),
            ''cpu_stolen'' \<mapsto> fdiv (fsub (Stolen cur) (Stolen prev)) (Fin 0),
            ''cpu_wait'' \<mapsto> fdiv (fsub (Iowait cur) (Iowait prev)) (Fin 0),
            ''cpu_busy'' \<mapsto> fadd (fdiv (fsub (User cur) (User prev)) (Fin 0))
                                 (fdiv (fsub (System cur) (System prev)) (Fin 0))]
         \<and> \<not> is_finite (fdiv (fsub (User cur) (User prev)) (Fin 0))
         \<and> \<not> is_finite (fdiv (fsub (System cur) (System prev)) (Fin 0))
         \<and> \<not> is_finite (fdiv (fsub (Idle cur) (Idle prev)) (Fin 0))
         \<and> \<not> is_finite (fdiv (fsub (Stolen cur) (Stolen prev)) (Fin 0))
         \<and> \<not> is_finite (fdiv (fsub (Iowait cur) (Iowait prev)) (Fin 0))
         \<and> \<not> is_finite (fadd (fdiv (fsub (User cur) (User prev)) (Fin 0))
                               (fdiv (fsub (System cur) (System prev)) (Fin 0)))"
  using assms by (simp add: calculateCpuPercent_Some fdiv_zero_not_finite fadd_not_finite)

theorem calculateCpuPercent_zero_delta_witness:
  "lastCPUStats \<lparr>ifaceName = ''eth0'', lastCPUStats = Some sample_prev\<rparr> = Some sample_prev
   \<and> fsub (Total (sample_prev\<lparr>User := Fin 110, Idle := Fin 790\<rparr>)) (Total sample_prev) = Fin 0
   \<and> calculateCpuPercent \<lparr>ifaceName = ''eth0'', lastCPUStats = Some sample_prev\<rparr>
        (sample_prev\<lparr>User := Fin 110, Idle := Fin 790\<rparr>)
       = [''cpu_user'' \<mapsto> PInf, ''cpu_sys'' \<mapsto> NaN, ''cpu_idle'' \<mapsto> NInf,
          ''cpu_stolen'' \<mapsto> NaN, ''cpu_wait'' \<mapsto> NaN, ''cpu_busy'' \<mapsto> NaN]"
  using calculateCpuPercent_zero_delta
    [of "\<lparr>ifaceName = ''eth0'', lastCPUStats = Some sample_prev\<rparr>" sample_prev
        "sample_prev\<lparr>User := Fin 110, Idle := Fin 790\<rparr>"]
  by (simp add: sample_prev_def fsub_def)

text \<open>
  C2: with a previous sample held and deltaTotal, the difference of the two totals,
  nonzero, each of the five base outputs is the category's delta divided by deltaTotal and
  \<^verbatim>\<open>cpu_busy\<close> is \<^verbatim>\<open>cpu_user\<close> plus \<^verbatim>\<open>cpu_sys\<close>. At the two example samples the six
  outputs are 50/300, 20/300, 220/300, 0, 10/300 and 70/300.
\<close>

theorem calculateCpuPercent_delta:
  assumes "lastCPUStats h = Some prev"
    and "deltaTotal = fsub (Total cur) (Total prev)"
    and "deltaTotal \<noteq> Fin 0"
  shows "calculateCpuPercent h cur =
           [''cpu_user'' \<mapsto> fdiv (fsub (User cur) (User prev)) deltaTotal,
            ''cpu_sys'' \<mapsto> fdiv (fsub (System cur) (System prev)) deltaTotal,
            ''cpu_idle'' \<mapsto> fdiv (fsub (Idle cur) (Idle prev)) deltaTotal,
            ''cpu_stolen'' \<mapsto> fdiv (fsub (Stolen cur) (Stolen prev)) deltaTotal,
            ''cpu_wait'' \<mapsto> fdiv (fsub (Iowait cur) (Iowait prev)) deltaTotal,
            ''cpu_busy'' \<mapsto> fadd (fdiv (fsub (User cur) (User prev)) deltaTotal)
                                 (fdiv (fsub (System cur) (System prev)) deltaTotal)]"
  using assms by (simp add: calculateCpuPercent_Some)

theorem calculateCpuPercent_delta_witness:
  "lastCPUStats \<lparr>ifaceName = ''eth0'', lastCPUStats = Some sample_prev\<rparr> = Some sample_prev
   \<and> fsub (Total sample_cur) (Total sample_prev) = Fin 300
   \<and> Fin 300 \<noteq> Fin 0
   \<and> calculateCpuPercent \<lparr>ifaceName = ''eth0'', lastCPUStats = Some sample_prev\<rparr> sample_cur
       = [''cpu_user'' \<mapsto> Fin (50 / 300), ''cpu_sys'' \<mapsto> Fin (20 / 300),
          ''cpu_idle'' \<mapsto> Fin (220 / 300), ''cpu_stolen'' \<mapsto> Fin 0,
          ''cpu_wait'' \<mapsto> Fin (10 / 300), ''cpu_busy'' \<mapsto> Fin (70 / 300)]"
  using calculateCpuPercent_delta
    [of "\<lparr>ifaceName = ''eth0'', lastCPUStats = Some sample_prev\<rparr>" sample_prev
        "Fin 300" sample_cur]
  by (simp add: sample_prev_def sample_cur_def fsub_def)

text \<open>
  C3: a collector as the constructor returns it holds no previous sample, and a CPU
  producer call on it that returns a mapping returns all six CPU keys at exactly 0,
  whatever the sample read.
\<close>

theorem getHostCpuTimes_cold_start:
  assumes "NewHostClient Getenv = Inr h"
    and "getHostCpuTimes p h = (Inr m, h')"
  shows "m = [''cpu_user'' \<mapsto> Fin 0, ''cpu_sys'' \<mapsto> Fin 0, ''cpu_idle'' \<mapsto> Fin 0,
              ''cpu_stolen'' \<mapsto> Fin 0, ''cpu_wait'' \<mapsto> Fin 0, ''cpu_busy'' \<mapsto> Fin 0]"
proof -
  from assms(1) have "lastCPUStats h = None"
    by (auto simp: NewHostClient_def Let_def split: if_splits)
  moreover from assms(2) obtain cur where "m = calculateCpuPercent h cur"
    by (auto simp: getHostCpuTimes_def split: sum.splits list.splits)
  ultimately show ?thesis
    by (simp add: calculateCpuPercent_None)
qed

theorem getHostCpuTimes_cold_start_witness:
  "NewHostClient host_env = Inr \<lparr>ifaceName = ''eth0'', lastCPUStats = None\<rparr>
   \<and> getHostCpuTimes host_platform \<lparr>ifaceName = ''eth0'', lastCPUStats = None\<rparr>
       = (Inr [''cpu_user'' \<mapsto> Fin 0, ''cpu_sys'' \<mapsto> Fin 0, ''cpu_idle'' \<mapsto> Fin 0,
               ''cpu_stolen'' \<mapsto> Fin 0, ''cpu_wait'' \<mapsto> Fin 0, ''cpu_busy'' \<mapsto> Fin 0],
          \<lparr>ifaceName = ''eth0'', lastCPUStats = Some sample_cur\<rparr>)"
proof -
  have a: "NewHostClient host_env = Inr \<lparr>ifaceName = ''eth0'', lastCPUStats = None\<rparr>"
    by (simp add: NewHostClient_def host_env_def StringEnvOrDefault_def)
  have b: "getHostCpuTimes host_platform \<lparr>ifaceName = ''eth0'', lastCPUStats = None\<rparr>
       = (Inr (calculateCpuPercent \<lparr>ifaceName = ''eth0'', lastCPUStats = None\<rparr> sample_cur),
          \<lparr>ifaceName = ''eth0'', lastCPUStats = Some sample_cur\<rparr>)"
    by (simp add: getHostCpuTimes_def host_platform_def)
  from getHostCpuTimes_cold_start [OF a b] a b show ?thesis
    by simp
qed

text \<open>
  C4: when the platform's CPU read succeeds with a sample, the CPU producer returns the
  mapping computed from the collector's state before the call, and the collector then holds
  exactly the sample just read, whatever it held before (nothing, an older sample, or the
  very same sample, where the delta is degenerate).
\<close>

theorem getHostCpuTimes_retains_current:
  assumes "CPUTimes p False = Inr (cur # rest)"
  shows "getHostCpuTimes p h = (Inr (calculateCpuPercent h cur), h\<lparr>lastCPUStats := Some cur\<rparr>)
         \<and> lastCPUStats (snd (getHostCpuTimes p h)) = Some cur"
  using assms by (simp add: getHostCpuTimes_def)

theorem getHostCpuTimes_retains_current_witness:
  "CPUTimes host_platform False = Inr (sample_cur # [])
   \<and> lastCPUStats (snd (getHostCpuTimes host_platform
         \<lparr>ifaceName = ''eth0'', lastCPUStats = None\<rparr>)) = Some sample_cur
   \<and> lastCPUStats (snd (getHostCpuTimes host_platform
         \<lparr>ifaceName = ''eth0'', lastCPUStats = Some sample_prev\<rparr>)) = Some sample_cur
   \<and> lastCPUStats (snd (getHostCpuTimes host_platform
         \<lparr>ifaceName = ''eth0'', lastCPUStats = Some sample_cur\<rparr>)) = Some sample_cur"
proof -
  have a: "CPUTimes host_platform False = Inr (sample_cur # [])"
    by (simp add: host_platform_def)
  from getHostCpuTimes_retains_current [OF a] a show ?thesis
    by simp
qed

subsection \<open>Construction\<close>

text \<open>
  C7: without \<^verbatim>\<open>HOST_PROC\<close> in the environment the constructor returns the error
  "HOST_PROC must be set to be able to send host metrics" (the spec's ConfigurationError)
  and no collector; with it, the constructor returns a collector that holds no CPU sample,
  reads nothing but the environment, and takes the interface name from
  \<^verbatim>\<open>METRICS_NETWORK_INTERFACE\<close>, \<^verbatim>\<open>eth0\<close> when that is not set.
\<close>

theorem NewHostClient_config:
  "(Getenv ''HOST_PROC'' = [] \<longrightarrow>
      NewHostClient Getenv =
        Inl (errorString ''HOST_PROC must be set to be able to send host metrics''))
   \<and> (Getenv ''HOST_PROC'' \<noteq> [] \<longrightarrow>
      NewHostClient Getenv =
        Inr \<lparr>ifaceName = (if Getenv ''METRICS_NETWORK_INTERFACE'' = [] then ''eth0''
                           else Getenv ''METRICS_NETWORK_INTERFACE''),
             lastCPUStats = None\<rparr>)"
  by (simp add: NewHostClient_def StringEnvOrDefault_def)

theorem NewHostClient_config_witness:
  "NewHostClient (\<lambda>v. []) =
     Inl (errorString ''HOST_PROC must be set to be able to send host metrics'')
   \<and> NewHostClient host_env = Inr \<lparr>ifaceName = ''eth0'', lastCPUStats = None\<rparr>
   \<and> NewHostClient (host_env(''METRICS_NETWORK_INTERFACE'' := ''ens5''))
       = Inr \<lparr>ifaceName = ''ens5'', lastCPUStats = None\<rparr>"
  using NewHostClient_config [of "\<lambda>v. []"] NewHostClient_config [of host_env]
    NewHostClient_config [of "host_env(''METRICS_NETWORK_INTERFACE'' := ''ens5'')"]
  by (simp add: host_env_def)

subsection \<open>Network producer\<close>

lemma scanInterfaces_first:
  "\<forall>j\<in>set pre. Name j \<noteq> name \<Longrightarrow> Name i = name \<Longrightarrow>
   scanInterfaces name (pre @ i # post) =
     Inr [''netrx'' \<mapsto> float_of_uint64 (BytesRecv i),
          ''nettx'' \<mapsto> float_of_uint64 (BytesSent i)]"
  by (induction pre) simp_all

lemma scanInterfaces_Inl:
  "scanInterfaces name netStat = Inl f \<longleftrightarrow>
     f = Err (errInterfaceNotFound name) \<and> (\<forall>j\<in>set netStat. Name j \<noteq> name)"
  by (induction netStat) auto

text \<open>
  C10: when the interface list is read, the network producer returns the byte counters of
  the first interface in the list whose name is the configured one, also when later
  interfaces have the same name; it fails, and then with the interface-not-found error
  carrying the configured name, exactly when no interface in the list has that name.
\<close>

theorem getHostNetworkUsage_first_match:
  assumes "NetIOCounters p True = Inr netStat"
  shows "(netStat = pre @ i # post \<and> (\<forall>j\<in>set pre. Name j \<noteq> ifaceName h)
              \<and> Name i = ifaceName h \<longrightarrow>
            getHostNetworkUsage p h =
              (Inr [''netrx'' \<mapsto> float_of_uint64 (BytesRecv i),
                    ''nettx'' \<mapsto> float_of_uint64 (BytesSent i)], h))
         \<and> (fst (getHostNetworkUsage p h) = Inl f \<longleftrightarrow>
                f = Err (errInterfaceNotFound (ifaceName h))
                  \<and> (\<forall>j\<in>set netStat. Name j \<noteq> ifaceName h))"
  using assms
  by (simp add: getHostNetworkUsage_def scanInterfaces_first scanInterfaces_Inl)

theorem getHostNetworkUsage_first_match_witness:
  "NetIOCounters host_platform True =
     Inr ([\<lparr>Name = ''lo'', BytesRecv = 1, BytesSent = 2\<rparr>]
          @ \<lparr>Name = ''eth0'', BytesRecv = 30, BytesSent = 40\<rparr>
          # [\<lparr>Name = ''eth0'', BytesRecv = 500, BytesSent = 600\<rparr>])
   \<and> getHostNetworkUsage host_platform \<lparr>ifaceName = ''eth0'', lastCPUStats = None\<rparr>
       = (Inr [''netrx'' \<mapsto> Fin 30, ''nettx'' \<mapsto> Fin 40],
          \<lparr>ifaceName = ''eth0'', lastCPUStats = None\<rparr>)
   \<and> fst (getHostNetworkUsage host_platform \<lparr>ifaceName = ''eth1'', lastCPUStats = None\<rparr>)
       = Inl (Err (errInterfaceNotFound ''eth1''))"
proof -
  have a: "NetIOCounters host_platform True =
     Inr ([\<lparr>Name = ''lo'', BytesRecv = 1, BytesSent = 2\<rparr>]
          @ \<lparr>Name = ''eth0'', BytesRecv = 30, BytesSent = 40\<rparr>
          # [\<lparr>Name = ''eth0'', BytesRecv = 500, BytesSent = 600\<rparr>])"
    by (simp add: host_platform_def)
  from getHostNetworkUsage_first_match
    [OF a, of "[\<lparr>Name = ''lo'', BytesRecv = 1, BytesSent = 2\<rparr>]"
       "\<lparr>Name = ''eth0'', BytesRecv = 30, BytesSent = 40\<rparr>"
       "[\<lparr>Name = ''eth0'', BytesRecv = 500, BytesSent = 600\<rparr>]"
       "\<lparr>ifaceName = ''eth0'', lastCPUStats = None\<rparr>"]
  have b: "getHostNetworkUsage host_platform \<lparr>ifaceName = ''eth0'', lastCPUStats = None\<rparr>
       = (Inr [''netrx'' \<mapsto> float_of_uint64 30, ''nettx'' \<mapsto> float_of_uint64 40],
          \<lparr>ifaceName = ''eth0'', lastCPUStats = None\<rparr>)"
    by simp
  from getHostNetworkUsage_first_match
    [OF a, of "[]" undefined "[]" "\<lparr>ifaceName = ''eth1'', lastCPUStats = None\<rparr>"
       "Err (errInterfaceNotFound ''eth1'')"]
  have c: "fst (getHostNetworkUsage host_platform \<lparr>ifaceName = ''eth1'', lastCPUStats = None\<rparr>)
       = Inl (Err (errInterfaceNotFound ''eth1''))"
    by simp
  from a b c show ?thesis
    by (simp add: float_of_uint64_def)
qed

subsection \<open>Key sets of the producers\<close>

lemma dom_map2: "dom [a \<mapsto> x, b \<mapsto> y] = {a, b}"
  by auto

lemma dom_map3: "dom [a \<mapsto> x, b \<mapsto> y, c \<mapsto> z] = {a, b, c}"
  by auto

lemma dom_calculateCpuPercent:
  "dom (calculateCpuPercent h cur) =
     {''cpu_user'', ''cpu_sys'', ''cpu_idle'', ''cpu_stolen'', ''cpu_wait'', ''cpu_busy''}"
  by (cases "lastCPUStats h")
     (simp_all add: calculateCpuPercent_None calculateCpuPercent_Some insert_commute)

lemma dom_scanInterfaces:
  "scanInterfaces name netStat = Inr m \<Longrightarrow> dom m = {''netrx'', ''nettx''}"
proof (induction netStat)
  case Nil
  then show ?case by simp
next
  case (Cons i netStat)
  show ?case
  proof (cases "Name i = name")
    case True
    with Cons.prems have
      "m = [''netrx'' \<mapsto> float_of_uint64 (BytesRecv i),
            ''nettx'' \<mapsto> float_of_uint64 (BytesSent i)]"
      by simp
    then show ?thesis by (simp only: dom_map2)
  next
    case False
    with Cons show ?thesis by simp
  qed
qed


lemma dom_getHostLoad:
  assumes "fst (getHostLoad p h) = Inr m"
  shows "dom m = {''load1'', ''load5'', ''load15''}"
proof (cases "LoadAvg p")
  case (Inl e)
  with assms show ?thesis by (simp add: getHostLoad_def)
next
  case (Inr s)
  with assms have
    "m = [''load1'' \<mapsto> Load1 s, ''load5'' \<mapsto> Load5 s, ''load15'' \<mapsto> Load15 s]"
    by (simp add: getHostLoad_def)
  then show ?thesis by (simp only: dom_map3)
qed

lemma dom_getHostMem:
  assumes "fst (getHostMem p h) = Inr m"
  shows "dom m = {''mem_total'', ''mem_used'', ''mem_free''}"
proof (cases "VirtualMemory p")
  case (Inl e)
  with assms show ?thesis by (simp add: getHostMem_def)
next
  case (Inr s)
  with assms have
    "m = [''mem_total'' \<mapsto> float_of_uint64 (mem_Total s),
          ''mem_used'' \<mapsto> float_of_uint64 (mem_Used s),
          ''mem_free'' \<mapsto> float_of_uint64 (mem_Free s)]"
    by (simp add: getHostMem_def)
  then show ?thesis by (simp only: dom_map3)
qed

lemma dom_getHostSwap:
  assumes "fst (getHostSwap p h) = Inr m"
  shows "dom m = {''swap_total'', ''swap_used'', ''swap_free''}"
proof (cases "SwapMemory p")
  case (Inl e)
  with assms show ?thesis by (simp add: getHostSwap_def)
next
  case (Inr s)
  with assms have
    "m = [''swap_total'' \<mapsto> float_of_uint64 (swap_Total s),
          ''swap_used'' \<mapsto> float_of_uint64 (swap_Used s),
          ''swap_free'' \<mapsto> float_of_uint64 (swap_Free s)]"
    by (simp add: getHostSwap_def)
  then show ?thesis by (simp only: dom_map3)
qed

lemma dom_getHostFileSystemUsage:
  assumes "fst (getHostFileSystemUsage p h) = Inr m"
  shows "dom m = {''disk_total'', ''disk_used'', ''disk_free''}"
proof (cases "DiskUsage p ''/''")
  case (Inl e)
  with assms show ?thesis by (simp add: getHostFileSystemUsage_def)
next
  case (Inr s)
  with assms have
    "m = [''disk_total'' \<mapsto> float_of_uint64 (disk_Total s),
          ''disk_used'' \<mapsto> float_of_uint64 (disk_Used s),
          ''disk_free'' \<mapsto> float_of_uint64 (disk_Free s)]"
    by (simp add: getHostFileSystemUsage_def)
  then show ?thesis by (simp only: dom_map3)
qed

lemma dom_getHostUptime:
  assumes "fst (getHostUptime p h) = Inr m"
  shows "dom m = {''uptime''}"
proof (cases "Uptime p")
  case (Inl e)
  with assms show ?thesis by (simp add: getHostUptime_def)
next
  case (Inr s)
  with assms have "m = [''uptime'' \<mapsto> float_of_uint64 s]"
    by (simp add: getHostUptime_def)
  then show ?thesis by simp
qed

lemma dom_getHostCpuTimes:
  assumes "fst (getHostCpuTimes p h) = Inr m"
  shows "dom m = {''cpu_user'', ''cpu_sys'', ''cpu_idle'', ''cpu_stolen'', ''cpu_wait'',
                  ''cpu_busy''}"
proof (cases "CPUTimes p False")
  case (Inl e)
  with assms show ?thesis by (simp add: getHostCpuTimes_def)
next
  case (Inr cpuStats)
  show ?thesis
  proof (cases cpuStats)
    case Nil
    with assms Inr show ?thesis by (simp add: getHostCpuTimes_def)
  next
    case (Cons c rest)
    with assms Inr have "m = calculateCpuPercent h c"
      by (simp add: getHostCpuTimes_def)
    then show ?thesis by (simp only: dom_calculateCpuPercent)
  qed
qed

lemma dom_getHostNetworkUsage:
  assumes "fst (getHostNetworkUsage p h) = Inr m"
  shows "dom m = {''netrx'', ''nettx''}"
proof (cases "NetIOCounters p True")
  case (Inl e)
  with assms show ?thesis by (simp add: getHostNetworkUsage_def)
next
  case (Inr netStat)
  with assms have "scanInterfaces (ifaceName h) netStat = Inr m"
    by (simp add: getHostNetworkUsage_def)
  then show ?thesis by (rule dom_scanInterfaces)
qed

lemmas producer_defs =
  getHostLoad_def getHostMem_def getHostSwap_def getHostFileSystemUsage_def
  getHostUptime_def getHostCpuTimes_def getHostNetworkUsage_def float_of_uint64_def

lemmas host_defs =
  host_platform_def host_client_def host_load_def host_mem_def host_swap_def host_disk_def
  host_uptime_def host_cpu_def host_net_def

text \<open>
  C9: whenever a producer returns a mapping, the mapping's keys are exactly the producer's
  documented ones, whatever the platform returned and whatever state the collector is in
  (so also on every later invocation).
\<close>

theorem producers_key_sets:
  "(fst (getHostLoad p h) = Inr m1 \<longrightarrow> dom m1 = {''load1'', ''load5'', ''load15''})
   \<and> (fst (getHostMem p h) = Inr m2 \<longrightarrow> dom m2 = {''mem_total'', ''mem_used'', ''mem_free''})
   \<and> (fst (getHostSwap p h) = Inr m3 \<longrightarrow> dom m3 = {''swap_total'', ''swap_used'', ''swap_free''})
   \<and> (fst (getHostFileSystemUsage p h) = Inr m4 \<longrightarrow>
        dom m4 = {''disk_total'', ''disk_used'', ''disk_free''})
   \<and> (fst (getHostUptime p h) = Inr m5 \<longrightarrow> dom m5 = {''uptime''})
   \<and> (fst (getHostCpuTimes p h) = Inr m6 \<longrightarrow>
        dom m6 = {''cpu_user'', ''cpu_sys'', ''cpu_idle'', ''cpu_stolen'', ''cpu_wait'',
                  ''cpu_busy''})
   \<and> (fst (getHostNetworkUsage p h) = Inr m7 \<longrightarrow> dom m7 = {''netrx'', ''nettx''})"
  by (intro conjI impI dom_getHostLoad dom_getHostMem dom_getHostSwap
        dom_getHostFileSystemUsage dom_getHostUptime dom_getHostCpuTimes
        dom_getHostNetworkUsage)

theorem producers_key_sets_witness:
  "fst (getHostLoad host_platform host_client) = Inr host_load
   \<and> dom host_load = {''load1'', ''load5'', ''load15''}
   \<and> fst (getHostMem host_platform host_client) = Inr host_mem
   \<and> dom host_mem = {''mem_total'', ''mem_used'', ''mem_free''}
   \<and> fst (getHostSwap host_platform host_client) = Inr host_swap
   \<and> dom host_swap = {''swap_total'', ''swap_used'', ''swap_free''}
   \<and> fst (getHostFileSystemUsage host_platform host_client) = Inr host_disk
   \<and> dom host_disk = {''disk_total'', ''disk_used'', ''disk_free''}
   \<and> fst (getHostUptime host_platform host_client) = Inr host_uptime
   \<and> dom host_uptime = {''uptime''}
   \<and> fst (getHostCpuTimes host_platform host_client) = Inr host_cpu
   \<and> dom host_cpu = {''cpu_user'', ''cpu_sys'', ''cpu_idle'', ''cpu_stolen'', ''cpu_wait'',
                      ''cpu_busy''}
   \<and> fst (getHostNetworkUsage host_platform host_client) = Inr host_net
   \<and> dom host_net = {''netrx'', ''nettx''}"
proof -
  have a: "fst (getHostLoad host_platform host_client) = Inr host_load"
    "fst (getHostMem host_platform host_client) = Inr host_mem"
    "fst (getHostSwap host_platform host_client) = Inr host_swap"
    "fst (getHostFileSystemUsage host_platform host_client) = Inr host_disk"
    "fst (getHostUptime host_platform host_client) = Inr host_uptime"
    "fst (getHostCpuTimes host_platform host_client) = Inr host_cpu"
    "fst (getHostNetworkUsage host_platform host_client) = Inr host_net"
    by (simp_all add: producer_defs host_defs calculateCpuPercent_None)
  from producers_key_sets
    [of host_platform host_client host_load host_mem host_swap host_disk host_uptime
        host_cpu host_net] a
  show ?thesis
    by simp
qed

subsection \<open>Collection cycle\<close>

lemma getHostLoad_cases:
  "(\<exists>m. getHostLoad p h = (Inr m, h)) \<or> (\<exists>e. getHostLoad p h = (Inl (Err (platformError e)), h))"
  by (cases "LoadAvg p") (simp_all add: getHostLoad_def)

lemma getHostMem_cases:
  "(\<exists>m. getHostMem p h = (Inr m, h)) \<or> (\<exists>e. getHostMem p h = (Inl (Err (platformError e)), h))"
  by (cases "VirtualMemory p") (simp_all add: getHostMem_def)

lemma getHostSwap_cases:
  "(\<exists>m. getHostSwap p h = (Inr m, h)) \<or> (\<exists>e. getHostSwap p h = (Inl (Err (platformError e)), h))"
  by (cases "SwapMemory p") (simp_all add: getHostSwap_def)

lemma getHostFileSystemUsage_cases:
  "(\<exists>m. getHostFileSystemUsage p h = (Inr m, h))
   \<or> (\<exists>e. getHostFileSystemUsage p h = (Inl (Err (platformError e)), h))"
  by (cases "DiskUsage p ''/''") (simp_all add: getHostFileSystemUsage_def)

lemma getHostUptime_cases:
  "(\<exists>m. getHostUptime p h = (Inr m, h)) \<or> (\<exists>e. getHostUptime p h = (Inl (Err (platformError e)), h))"
  by (cases "Uptime p") (simp_all add: getHostUptime_def)

lemma getHostCpuTimes_cases:
  "(\<exists>m h'. getHostCpuTimes p h = (Inr m, h') \<and> ifaceName h' = ifaceName h)
   \<or> (\<exists>e. getHostCpuTimes p h = (Inl (Err (platformError e)), h))
   \<or> getHostCpuTimes p h = (Inl Panic, h)"
proof (cases "CPUTimes p False")
  case (Inl e)
  then show ?thesis by (simp add: getHostCpuTimes_def)
next
  case (Inr cpuStats)
  then show ?thesis by (cases cpuStats) (simp_all add: getHostCpuTimes_def)
qed

lemma Warnf_skip:
  "Warnf ''Skipping network metrics: %s'' [Error (errInterfaceNotFound name)] lg =
     lg @ [''[WARNING] Skipping network metrics: interface '' @ name @ '' not found'']"
  by (simp add: Warnf_def printf_def)

lemma collect_Cons_Inr:
  "c h = (Inr m, h1) \<Longrightarrow> collect (c # cs) h ms lg = collect cs h1 (ms @ [m]) lg"
  by simp

lemma collect_Cons_Err:
  "c h = (Inl (Err e), h1) \<Longrightarrow> \<forall>name. e \<noteq> errInterfaceNotFound name \<Longrightarrow>
   collect (c # cs) h ms lg = (Inl (Err e), h1, lg)"
  by (cases e) simp_all

lemma collect_Cons_Panic:
  "c h = (Inl Panic, h1) \<Longrightarrow> collect (c # cs) h ms lg = (Inl Panic, h1, lg)"
  by simp

lemma collect_Cons_skip:
  "c h = (Inl (Err (errInterfaceNotFound name)), h1) \<Longrightarrow>
   collect (c # cs) h ms lg =
     collect cs h1 ms
       (lg @ [''[WARNING] Skipping network metrics: interface '' @ name @ '' not found''])"
  by (simp add: Warnf_skip del: Error.simps)

lemma collect_append:
  "collect (xs @ ys) h ms lg =
     (case collect xs h ms lg of
        (Inl f, h1, lg1) \<Rightarrow> (Inl f, h1, lg1)
      | (Inr ms1, h1, lg1) \<Rightarrow> collect ys h1 ms1 lg1)"
  by (induction xs arbitrary: h ms lg)
     (auto split: prod.splits sum.splits failure.splits error.splits)

lemma collect_never_not_found:
  "fst (collect cs h ms lg) \<noteq> Inl (Err (errInterfaceNotFound name))"
  by (induction cs arbitrary: h ms lg)
     (auto split: prod.splits sum.splits failure.splits error.splits)

lemma collect_plain_step:
  assumes "(\<exists>m. c h = (Inr m, h)) \<or> (\<exists>e. c h = (Inl (Err (platformError e)), h))"
    and "collect (c # cs) h ms lg = (Inr out, h1, lg1)"
  shows "\<exists>m. c h = (Inr m, h) \<and> collect cs h (ms @ [m]) lg = (Inr out, h1, lg1)"
  using assms by auto

lemma collect_Nil: "collect [] h ms lg = (Inr ms, h, lg)"
  by simp

lemma GetHostMetrics_split:
  "GetHostMetrics p h lg =
     (case collect [getHostLoad p, getHostMem p, getHostSwap p, getHostFileSystemUsage p,
                    getHostUptime p, getHostCpuTimes p] h [] lg of
        (Inl f, h1, lg1) \<Rightarrow> (Inl f, h1, lg1)
      | (Inr ms1, h1, lg1) \<Rightarrow> collect [getHostNetworkUsage p] h1 ms1 lg1)"
proof -
  have "collectors p =
          [getHostLoad p, getHostMem p, getHostSwap p, getHostFileSystemUsage p,
           getHostUptime p, getHostCpuTimes p] @ [getHostNetworkUsage p]"
    by (simp add: collectors_def)
  then show ?thesis
    unfolding GetHostMetrics_def by (simp only: collect_append)
qed

lemma collect_net_Inr:
  assumes "collect [getHostNetworkUsage p] h ms lg = (Inr out, h1, lg1)"
  shows "h1 = h \<and> (case fst (getHostNetworkUsage p h) of
                      Inr m \<Rightarrow> out = ms @ [m]
                    | Inl f \<Rightarrow> out = ms)"
proof (cases "NetIOCounters p True")
  case (Inl e)
  with assms show ?thesis by (simp add: getHostNetworkUsage_def)
next
  case (Inr netStat)
  then have net: "getHostNetworkUsage p h = (scanInterfaces (ifaceName h) netStat, h)"
    by (simp add: getHostNetworkUsage_def)
  show ?thesis
  proof (cases "scanInterfaces (ifaceName h) netStat")
    case (Inl f)
    then have "f = Err (errInterfaceNotFound (ifaceName h))"
      by (simp add: scanInterfaces_Inl)
    with assms net Inl show ?thesis
      by (simp add: Warnf_skip)
  next
    case (Inr m)
    with assms net show ?thesis by simp
  qed
qed

declare collect.simps [simp del]

lemma collect_six_Inr:
  assumes "collect [getHostLoad p, getHostMem p, getHostSwap p, getHostFileSystemUsage p,
                    getHostUptime p, getHostCpuTimes p] h ms lg = (Inr out, h1, lg1)"
  shows "\<exists>m1 m2 m3 m4 m5 m6.
           getHostLoad p h = (Inr m1, h) \<and> getHostMem p h = (Inr m2, h)
           \<and> getHostSwap p h = (Inr m3, h) \<and> getHostFileSystemUsage p h = (Inr m4, h)
           \<and> getHostUptime p h = (Inr m5, h) \<and> getHostCpuTimes p h = (Inr m6, h1)
           \<and> out = ms @ [m1, m2, m3, m4, m5, m6] \<and> lg1 = lg
           \<and> ifaceName h1 = ifaceName h"
proof -
  from collect_plain_step [OF getHostLoad_cases assms]
  obtain m1 where m1: "getHostLoad p h = (Inr m1, h)"
    and r1: "collect [getHostMem p, getHostSwap p, getHostFileSystemUsage p,
                      getHostUptime p, getHostCpuTimes p] h (ms @ [m1]) lg = (Inr out, h1, lg1)"
    by blast
  from collect_plain_step [OF getHostMem_cases r1]
  obtain m2 where m2: "getHostMem p h = (Inr m2, h)"
    and r2: "collect [getHostSwap p, getHostFileSystemUsage p,
                      getHostUptime p, getHostCpuTimes p] h ((ms @ [m1]) @ [m2]) lg
               = (Inr out, h1, lg1)"
    by blast
  from collect_plain_step [OF getHostSwap_cases r2]
  obtain m3 where m3: "getHostSwap p h = (Inr m3, h)"
    and r3: "collect [getHostFileSystemUsage p, getHostUptime p, getHostCpuTimes p] h
               (((ms @ [m1]) @ [m2]) @ [m3]) lg = (Inr out, h1, lg1)"
    by blast
  from collect_plain_step [OF getHostFileSystemUsage_cases r3]
  obtain m4 where m4: "getHostFileSystemUsage p h = (Inr m4, h)"
    and r4: "collect [getHostUptime p, getHostCpuTimes p] h
               ((((ms @ [m1]) @ [m2]) @ [m3]) @ [m4]) lg = (Inr out, h1, lg1)"
    by blast
  from collect_plain_step [OF getHostUptime_cases r4]
  obtain m5 where m5: "getHostUptime p h = (Inr m5, h)"
    and r5: "collect [getHostCpuTimes p] h
               (((((ms @ [m1]) @ [m2]) @ [m3]) @ [m4]) @ [m5]) lg = (Inr out, h1, lg1)"
    by blast
  from getHostCpuTimes_cases [of p h] r5
  obtain m6 where m6: "getHostCpuTimes p h = (Inr m6, h1)"
    and i6: "ifaceName h1 = ifaceName h"
    and o6: "out = (((((ms @ [m1]) @ [m2]) @ [m3]) @ [m4]) @ [m5]) @ [m6]"
    and l6: "lg1 = lg"
    by (auto simp: collect.simps)
  from m1 m2 m3 m4 m5 m6 i6 o6 l6 show ?thesis
    by simp
qed

text \<open>
  C6: when a producer of the cycle returns an error that is not the interface-not-found
  error, the cycle returns that very error and no metrics: the mappings gathered from the
  producers before it are dropped, and no later producer is run.
\<close>

theorem GetHostMetrics_fail_fast:
  assumes "collectors p = pre @ c # post"
    and "collect pre h [] lg = (Inr metrics, h1, lg1)"
    and "c h1 = (Inl (Err err), h2)"
    and "\<forall>name. err \<noteq> errInterfaceNotFound name"
  shows "GetHostMetrics p h lg = (Inl (Err err), h2, lg1)"
proof -
  have "GetHostMetrics p h lg = collect (c # post) h1 metrics lg1"
    by (simp add: GetHostMetrics_def assms(1,2) collect_append)
  also have "\<dots> = (Inl (Err err), h2, lg1)"
    using assms(3,4) by (rule collect_Cons_Err)
  finally show ?thesis .
qed

theorem GetHostMetrics_fail_fast_witness:
  "collectors mem_fail_platform =
     [getHostLoad mem_fail_platform] @ getHostMem mem_fail_platform
       # [getHostSwap mem_fail_platform, getHostFileSystemUsage mem_fail_platform,
          getHostUptime mem_fail_platform, getHostCpuTimes mem_fail_platform,
          getHostNetworkUsage mem_fail_platform]
   \<and> collect [getHostLoad mem_fail_platform] host_client [] [] = (Inr [host_load], host_client, [])
   \<and> getHostMem mem_fail_platform host_client =
       (Inl (Err (platformError ''open /prochost/meminfo: permission denied'')), host_client)
   \<and> GetHostMetrics mem_fail_platform host_client [] =
       (Inl (Err (platformError ''open /prochost/meminfo: permission denied'')), host_client, [])"
proof -
  have a: "collectors mem_fail_platform =
     [getHostLoad mem_fail_platform] @ getHostMem mem_fail_platform
       # [getHostSwap mem_fail_platform, getHostFileSystemUsage mem_fail_platform,
          getHostUptime mem_fail_platform, getHostCpuTimes mem_fail_platform,
          getHostNetworkUsage mem_fail_platform]"
    by (simp add: collectors_def)
  have b: "collect [getHostLoad mem_fail_platform] host_client [] [] =
             (Inr [host_load], host_client, [])"
    by (simp add: collect.simps producer_defs mem_fail_platform_def host_defs)
  have c: "getHostMem mem_fail_platform host_client =
       (Inl (Err (platformError ''open /prochost/meminfo: permission denied'')), host_client)"
    by (simp add: producer_defs mem_fail_platform_def host_defs)
  have d: "\<forall>name. platformError ''open /prochost/meminfo: permission denied''
              \<noteq> errInterfaceNotFound name"
    by simp
  from GetHostMetrics_fail_fast [OF a b c d] a b c show ?thesis
    by simp
qed

text \<open>
  C8: the cycle runs the collectors in the order load, memory, swap, filesystem usage,
  uptime, CPU, network. A cycle that returns metrics returns the mappings of the first six
  producers in that order, each as the producer returned it, followed by the network
  producer's mapping when that producer returned one (it is run on the state the CPU
  producer left).
\<close>

theorem GetHostMetrics_order:
  assumes "GetHostMetrics p h lg = (Inr metrics, h1, lg1)"
  shows "\<exists>m1 m2 m3 m4 m5 m6.
           getHostLoad p h = (Inr m1, h) \<and> getHostMem p h = (Inr m2, h)
           \<and> getHostSwap p h = (Inr m3, h) \<and> getHostFileSystemUsage p h = (Inr m4, h)
           \<and> getHostUptime p h = (Inr m5, h) \<and> getHostCpuTimes p h = (Inr m6, h1)
           \<and> (case fst (getHostNetworkUsage p h1) of
                 Inr m7 \<Rightarrow> metrics = [m1, m2, m3, m4, m5, m6, m7]
               | Inl f \<Rightarrow> metrics = [m1, m2, m3, m4, m5, m6])"
proof -
  let ?six = "[getHostLoad p, getHostMem p, getHostSwap p, getHostFileSystemUsage p,
               getHostUptime p, getHostCpuTimes p]"
  obtain r h6 lg6 where six: "collect ?six h [] lg = (r, h6, lg6)"
    by (cases "collect ?six h [] lg") auto
  show ?thesis
  proof (cases r)
    case (Inl f)
    with assms six show ?thesis
      by (simp add: GetHostMetrics_split)
  next
    case (Inr ms)
    with assms six
    have net: "collect [getHostNetworkUsage p] h6 ms lg6 = (Inr metrics, h1, lg1)"
      by (simp add: GetHostMetrics_split)
    from collect_net_Inr [OF net]
    have h16: "h1 = h6"
      and out7: "case fst (getHostNetworkUsage p h6) of
                   Inr m7 \<Rightarrow> metrics = ms @ [m7]
                 | Inl f \<Rightarrow> metrics = ms"
      by simp_all
    from collect_six_Inr [OF six [unfolded Inr]]
    obtain m1 m2 m3 m4 m5 m6 where
      ms: "getHostLoad p h = (Inr m1, h)" "getHostMem p h = (Inr m2, h)"
          "getHostSwap p h = (Inr m3, h)" "getHostFileSystemUsage p h = (Inr m4, h)"
          "getHostUptime p h = (Inr m5, h)" "getHostCpuTimes p h = (Inr m6, h6)"
      and out: "ms = [] @ [m1, m2, m3, m4, m5, m6]"
      by blast
    from out7 out
    have "case fst (getHostNetworkUsage p h6) of
            Inr m7 \<Rightarrow> metrics = [m1, m2, m3, m4, m5, m6, m7]
          | Inl f \<Rightarrow> metrics = [m1, m2, m3, m4, m5, m6]"
      by (simp split: sum.splits)
    with ms h16 show ?thesis
      by blast
  qed
qed

theorem GetHostMetrics_order_witness:
  "GetHostMetrics host_platform host_client [] =
     (Inr [host_load, host_mem, host_swap, host_disk, host_uptime, host_cpu, host_net],
      host_client\<lparr>lastCPUStats := Some sample_cur\<rparr>, [])
   \<and> getHostLoad host_platform host_client = (Inr host_load, host_client)
   \<and> getHostMem host_platform host_client = (Inr host_mem, host_client)
   \<and> getHostSwap host_platform host_client = (Inr host_swap, host_client)
   \<and> getHostFileSystemUsage host_platform host_client = (Inr host_disk, host_client)
   \<and> getHostUptime host_platform host_client = (Inr host_uptime, host_client)
   \<and> getHostCpuTimes host_platform host_client =
       (Inr host_cpu, host_client\<lparr>lastCPUStats := Some sample_cur\<rparr>)
   \<and> fst (getHostNetworkUsage host_platform (host_client\<lparr>lastCPUStats := Some sample_cur\<rparr>))
       = Inr host_net"
proof -
  have a: "GetHostMetrics host_platform host_client [] =
     (Inr [host_load, host_mem, host_swap, host_disk, host_uptime, host_cpu, host_net],
      host_client\<lparr>lastCPUStats := Some sample_cur\<rparr>, [])"
    by (simp add: GetHostMetrics_def collectors_def collect.simps producer_defs host_defs
          calculateCpuPercent_None)
  have b: "getHostLoad host_platform host_client = (Inr host_load, host_client)"
    "getHostMem host_platform host_client = (Inr host_mem, host_client)"
    "getHostSwap host_platform host_client = (Inr host_swap, host_client)"
    "getHostFileSystemUsage host_platform host_client = (Inr host_disk, host_client)"
    "getHostUptime host_platform host_client = (Inr host_uptime, host_client)"
    "getHostCpuTimes host_platform host_client =
       (Inr host_cpu, host_client\<lparr>lastCPUStats := Some sample_cur\<rparr>)"
    "fst (getHostNetworkUsage host_platform (host_client\<lparr>lastCPUStats := Some sample_cur\<rparr>))
       = Inr host_net"
    by (simp_all add: producer_defs host_defs calculateCpuPercent_None)
  from GetHostMetrics_order [OF a] a b show ?thesis
    by simp
qed

text \<open>
  C5: when the six producers before the network producer have returned their mappings
  and the interface list holds no interface of the configured name, the cycle returns
  successfully with exactly those six mappings, none of them empty and none with a network
  key, and the log gains exactly one entry, the warning of the skip. No cycle at all
  returns the interface-not-found error.
\<close>

theorem GetHostMetrics_interface_skip:
  assumes six: "collect [getHostLoad p, getHostMem p, getHostSwap p, getHostFileSystemUsage p,
                         getHostUptime p, getHostCpuTimes p] h [] lg = (Inr metrics, h1, lg1)"
    and read: "NetIOCounters p True = Inr netStat"
    and none: "\<forall>i\<in>set netStat. Name i \<noteq> ifaceName h"
  shows "GetHostMetrics p h lg =
           (Inr metrics, h1,
            lg @ [''[WARNING] Skipping network metrics: interface '' @ ifaceName h
                  @ '' not found''])
         \<and> length metrics = 6
         \<and> (\<forall>m\<in>set metrics. m \<noteq> Map.empty \<and> ''netrx'' \<notin> dom m \<and> ''nettx'' \<notin> dom m)
         \<and> (\<forall>p' h' lg' name.
               fst (GetHostMetrics p' h' lg') \<noteq> Inl (Err (errInterfaceNotFound name)))"
proof -
  from collect_six_Inr [OF six]
  obtain m1 m2 m3 m4 m5 m6 where
    ms: "getHostLoad p h = (Inr m1, h)" "getHostMem p h = (Inr m2, h)"
        "getHostSwap p h = (Inr m3, h)" "getHostFileSystemUsage p h = (Inr m4, h)"
        "getHostUptime p h = (Inr m5, h)" "getHostCpuTimes p h = (Inr m6, h1)"
    and out: "metrics = [m1, m2, m3, m4, m5, m6]"
    and lg1: "lg1 = lg"
    and iface: "ifaceName h1 = ifaceName h"
    by auto
  from read none iface
  have net: "getHostNetworkUsage p h1 = (Inl (Err (errInterfaceNotFound (ifaceName h))), h1)"
    by (simp add: getHostNetworkUsage_def scanInterfaces_Inl)
  have "GetHostMetrics p h lg = collect [getHostNetworkUsage p] h1 metrics lg"
    by (simp add: GetHostMetrics_split six lg1)
  also have "\<dots> = collect [] h1 metrics
      (lg @ [''[WARNING] Skipping network metrics: interface '' @ ifaceName h @ '' not found''])"
    using net by (rule collect_Cons_skip)
  finally have cycle: "GetHostMetrics p h lg =
      (Inr metrics, h1,
       lg @ [''[WARNING] Skipping network metrics: interface '' @ ifaceName h @ '' not found''])"
    by (simp add: collect_Nil)
  have d: "dom m1 = {''load1'', ''load5'', ''load15''}"
    "dom m2 = {''mem_total'', ''mem_used'', ''mem_free''}"
    "dom m3 = {''swap_total'', ''swap_used'', ''swap_free''}"
    "dom m4 = {''disk_total'', ''disk_used'', ''disk_free''}"
    "dom m5 = {''uptime''}"
    "dom m6 = {''cpu_user'', ''cpu_sys'', ''cpu_idle'', ''cpu_stolen'', ''cpu_wait'', ''cpu_busy''}"
  proof -
    show "dom m1 = {''load1'', ''load5'', ''load15''}"
      by (rule dom_getHostLoad [of p h]) (simp add: ms)
    show "dom m2 = {''mem_total'', ''mem_used'', ''mem_free''}"
      by (rule dom_getHostMem [of p h]) (simp add: ms)
    show "dom m3 = {''swap_total'', ''swap_used'', ''swap_free''}"
      by (rule dom_getHostSwap [of p h]) (simp add: ms)
    show "dom m4 = {''disk_total'', ''disk_used'', ''disk_free''}"
      by (rule dom_getHostFileSystemUsage [of p h]) (simp add: ms)
    show "dom m5 = {''uptime''}"
      by (rule dom_getHostUptime [of p h]) (simp add: ms)
    show "dom m6 = {''cpu_user'', ''cpu_sys'', ''cpu_idle'', ''cpu_stolen'', ''cpu_wait'', ''cpu_busy''}"
      by (rule dom_getHostCpuTimes [of p h]) (simp add: ms)
  qed
  have absent: "\<forall>m\<in>set metrics. m \<noteq> Map.empty \<and> ''netrx'' \<notin> dom m \<and> ''nettx'' \<notin> dom m"
  proof
    fix m assume "m \<in> set metrics"
    with out have "m = m1 \<or> m = m2 \<or> m = m3 \<or> m = m4 \<or> m = m5 \<or> m = m6"
      by auto
    with d have "dom m \<noteq> {} \<and> ''netrx'' \<notin> dom m \<and> ''nettx'' \<notin> dom m"
      by (elim disjE) simp_all
    then show "m \<noteq> Map.empty \<and> ''netrx'' \<notin> dom m \<and> ''nettx'' \<notin> dom m"
      by auto
  qed
  have never: "\<forall>p' h' lg' name.
      fst (GetHostMetrics p' h' lg') \<noteq> Inl (Err (errInterfaceNotFound name))"
    by (simp add: GetHostMetrics_def collect_never_not_found)
  from cycle out absent never show ?thesis
    by simp
qed

theorem GetHostMetrics_interface_skip_witness:
  "collect [getHostLoad host_platform, getHostMem host_platform, getHostSwap host_platform,
            getHostFileSystemUsage host_platform, getHostUptime host_platform,
            getHostCpuTimes host_platform] (host_client\<lparr>ifaceName := ''eth1''\<rparr>) [] []
     = (Inr [host_load, host_mem, host_swap, host_disk, host_uptime, host_cpu],
        \<lparr>ifaceName = ''eth1'', lastCPUStats = Some sample_cur\<rparr>, [])
   \<and> NetIOCounters host_platform True =
       Inr [\<lparr>Name = ''lo'', BytesRecv = 1, BytesSent = 2\<rparr>,
            \<lparr>Name = ''eth0'', BytesRecv = 30, BytesSent = 40\<rparr>,
            \<lparr>Name = ''eth0'', BytesRecv = 500, BytesSent = 600\<rparr>]
   \<and> GetHostMetrics host_platform (host_client\<lparr>ifaceName := ''eth1''\<rparr>) [] =
       (Inr [host_load, host_mem, host_swap, host_disk, host_uptime, host_cpu],
        \<lparr>ifaceName = ''eth1'', lastCPUStats = Some sample_cur\<rparr>,
        [''[WARNING] Skipping network metrics: interface eth1 not found''])"
proof -
  have a: "collect [getHostLoad host_platform, getHostMem host_platform,
            getHostSwap host_platform, getHostFileSystemUsage host_platform,
            getHostUptime host_platform, getHostCpuTimes host_platform]
            (host_client\<lparr>ifaceName := ''eth1''\<rparr>) [] []
     = (Inr [host_load, host_mem, host_swap, host_disk, host_uptime, host_cpu],
        \<lparr>ifaceName = ''eth1'', lastCPUStats = Some sample_cur\<rparr>, [])"
    by (simp add: collect.simps producer_defs host_defs calculateCpuPercent_None)
  have b: "NetIOCounters host_platform True =
       Inr [\<lparr>Name = ''lo'', BytesRecv = 1, BytesSent = 2\<rparr>,
            \<lparr>Name = ''eth0'', BytesRecv = 30, BytesSent = 40\<rparr>,
            \<lparr>Name = ''eth0'', BytesRecv = 500, BytesSent = 600\<rparr>]"
    by (simp add: host_platform_def)
  have c: "\<forall>i\<in>set [\<lparr>Name = ''lo'', BytesRecv = 1, BytesSent = 2\<rparr>,
            \<lparr>Name = ''eth0'', BytesRecv = 30, BytesSent = 40\<rparr>,
            \<lparr>Name = ''eth0'', BytesRecv = 500, BytesSent = 600\<rparr>].
            Name i \<noteq> ifaceName (host_client\<lparr>ifaceName := ''eth1''\<rparr>)"
    by simp
  from GetHostMetrics_interface_skip [OF a b c] a b show ?thesis
    by simp
qed

end
